theory Spec2Isabelle
  imports Complex_Main "HOL-Library.Sublist" "HOL-Library.Word"
begin

section \<open>JavaScript values\<close>

text \<open>
  The console is one React component, \<^verbatim>\<open>App\<close> in \<^verbatim>\<open>src/App.js\<close>. Everything that
  comes back from the backend is the result of \<^verbatim>\<open>response.json()\<close>, and the component
  tests such values dynamically (\<^verbatim>\<open>userData.username\<close>, \<^verbatim>\<open>response.access_token\<close>,
  \<^verbatim>\<open>dashboardStats.active_tourists || ...\<close>, \<^verbatim>\<open>incident.severity === 'high'\<close>).
  Those values are modelled by \<open>jsval\<close>: the JSON values plus \<^verbatim>\<open>undefined\<close>, which is what
  reading an absent property yields. A number is an integer-valued double, \<open>JNum n\<close>
  for the integer \<open>n\<close> it is (the values concerned are counts); an object is the list of
  its own properties, the first binding of a key being the one that is read. The strings
  inside such values, property names, tokens and messages are only compared or passed
  on, and are lists of \<open>char\<close>. The text that the component lower-cases or trims (tourist
  names, the search query, the fields of the registration form) is kept as the list of
  its UTF-16 code units, below.
\<close>

datatype jsval =
    JUndefined
  | JNull
  | JBool bool
  | JNum int
  | JStr string
  | JArr "jsval list"
  | JObj "(string \<times> jsval) list"

text \<open>What a rejected promise or a \<^verbatim>\<open>throw\<close> carries.\<close>

datatype js_error = NetworkError | SyntaxError | TypeError

text \<open>\<^verbatim>\<open>ToBoolean\<close>: the falsy values are \<^verbatim>\<open>undefined, null, false, 0, ""\<close>.\<close>

fun truthy :: "jsval \<Rightarrow> bool" where
  "truthy JUndefined = False"
| "truthy JNull = False"
| "truthy (JBool b) = b"
| "truthy (JNum n) = (n \<noteq> 0)"
| "truthy (JStr s) = (s \<noteq> [])"
| "truthy (JArr xs) = True"
| "truthy (JObj kvs) = True"

text \<open>\<^verbatim>\<open>a || b\<close>: the left operand when it is truthy, the right one otherwise.\<close>

definition js_or :: "jsval \<Rightarrow> jsval \<Rightarrow> jsval" where
  "js_or a b = (if truthy a then a else b)"

text \<open>
  \<^verbatim>\<open>v.k\<close> for the property names the component reads (\<^verbatim>\<open>username\<close>, \<^verbatim>\<open>access_token\<close>,
  \<^verbatim>\<open>user\<close>, \<^verbatim>\<open>detail\<close> and the fields of the dashboard statistics, none of which is a
  built-in property of a string, a number or an array): a \<^verbatim>\<open>TypeError\<close> on \<^verbatim>\<open>null\<close> and
  \<^verbatim>\<open>undefined\<close>, the bound value on an object that has the key, \<^verbatim>\<open>undefined\<close> otherwise.
\<close>

fun get_prop :: "jsval \<Rightarrow> string \<Rightarrow> js_error + jsval" where
  "get_prop JUndefined k = Inl TypeError"
| "get_prop JNull k = Inl TypeError"
| "get_prop (JObj kvs) k = Inr (case map_of kvs k of None \<Rightarrow> JUndefined | Some v \<Rightarrow> v)"
| "get_prop v k = Inr JUndefined"

text \<open>\<^verbatim>\<open>Array.prototype.join\<close> on an array of strings.\<close>

fun join :: "string \<Rightarrow> string list \<Rightarrow> string" where
  "join sep [] = []"
| "join sep [x] = x"
| "join sep (x # y # xs) = x @ sep @ join sep (y # xs)"

text \<open>Decimal digits of a natural number, most significant first.\<close>

fun digits :: "nat \<Rightarrow> string" where
  "digits n =
     (if n < 10 then [''0123456789'' ! n]
      else digits (n div 10) @ [''0123456789'' ! (n mod 10)])"

text \<open>
  \<^verbatim>\<open>Number::toString\<close> of a non-negative integer: its decimal digits when there are
  at most 21 of them, and from ten to the power 21 on the exponent form, the digits
  without their trailing zeros, a point after the first when more than one is left, and \<^verbatim>\<open>e+\<close> with
  the exponent.
\<close>

definition Number_toString :: "nat \<Rightarrow> string" where
  "Number_toString n =
     (let ds = digits n in
      if length ds \<le> 21 then ds
      else (case rev (dropWhile (\<lambda>c. c = CHR ''0'') (rev ds)) of
              [] \<Rightarrow> []
            | d # rest \<Rightarrow>
                (if rest = [] then [d] else d # CHR ''.'' # rest) @ ''e+'' @
                digits (length ds - 1)))"

text \<open>
  \<^verbatim>\<open>ToString\<close>, which \<^verbatim>\<open>localStorage.setItem\<close> and the template literal
  \<^verbatim>\<open>`Bearer ${token}`\<close> apply to the value they are given.
\<close>

fun ToString :: "jsval \<Rightarrow> string" where
  "ToString JUndefined = ''undefined''"
| "ToString JNull = ''null''"
| "ToString (JBool b) = (if b then ''true'' else ''false'')"
| "ToString (JNum n) =
     (if n < 0 then ''-'' @ Number_toString (nat (- n)) else Number_toString (nat n))"
| "ToString (JStr s) = s"
| "ToString (JArr xs) =
     join '','' (map (\<lambda>v. if v = JNull \<or> v = JUndefined then [] else ToString v) xs)"
| "ToString (JObj kvs) = ''[object Object]''"

section \<open>Derived state: colours\<close>

text \<open>
  \<^verbatim>\<open>getStatusColor\<close> is a \<^verbatim>\<open>switch\<close> on the status; \<^verbatim>\<open>case\<close> compares with \<^verbatim>\<open>===\<close>,
  so a value that is not the string itself falls to \<^verbatim>\<open>default\<close>.
\<close>

definition getStatusColor :: "jsval \<Rightarrow> string" where
  "getStatusColor status =
     (if status = JStr ''safe'' then ''#22c55e''
      else if status = JStr ''alert'' then ''#f59e0b''
      else if status = JStr ''emergency'' then ''#ef4444''
      else ''#6b7280'')"

text \<open>
  The severity dot, written twice in the component: in the incident list
  (\<^verbatim>\<open>incident.severity\<close>) and in the incident details dialog
  (\<^verbatim>\<open>selectedIncident.severity\<close>). Both take the value of the \<^verbatim>\<open>severity\<close> property,
  \<^verbatim>\<open>undefined\<close> when the incident has none.
\<close>

definition incidentListSeverityDot :: "jsval \<Rightarrow> string" where
  "incidentListSeverityDot severity =
     (if severity = JStr ''high'' then ''bg-red-500''
      else if severity = JStr ''medium'' then ''bg-yellow-500''
      else ''bg-green-500'')"

definition incidentModalSeverityDot :: "jsval \<Rightarrow> string" where
  "incidentModalSeverityDot severity =
     (if severity = JStr ''high'' then ''bg-red-500''
      else if severity = JStr ''medium'' then ''bg-yellow-500''
      else ''bg-green-500'')"

section \<open>Strings\<close>

text \<open>
  A JavaScript string is a sequence of 16-bit code units. \<open>utf16\<close> gives the code units
  of a literal of the model, one per character.
\<close>

type_synonym ustring = "16 word list"

definition utf16 :: "string \<Rightarrow> ustring" where
  "utf16 s = map of_char s"

text \<open>
  \<^verbatim>\<open>String.prototype.includes\<close>: whether the search string occurs at some position of
  the receiver; \<open>startsWith\<close> is the comparison at one position.
\<close>

fun startsWith :: "'a list \<Rightarrow> 'a list \<Rightarrow> bool" where
  "startsWith s [] = True"
| "startsWith [] (x # t) = False"
| "startsWith (c # s) (x # t) = (c = x \<and> startsWith s t)"

fun includes_str :: "'a list \<Rightarrow> 'a list \<Rightarrow> bool" where
  "includes_str [] t = (t = [])"
| "includes_str (c # s) t = (startsWith (c # s) t \<or> includes_str s t)"

text \<open>
  \<^verbatim>\<open>String.prototype.trim\<close> removes, at both ends, the code units of the productions
  \<^verbatim>\<open>WhiteSpace\<close> and \<^verbatim>\<open>LineTerminator\<close> of ECMAScript: tab, line feed, vertical tab, form
  feed, carriage return, space, no-break space, the space separators U+1680,
  U+2000 to U+200A, U+202F, U+205F and U+3000, the line and paragraph separators
  U+2028 and U+2029, and U+FEFF.
\<close>

definition isWhiteSpace :: "16 word \<Rightarrow> bool" where
  "isWhiteSpace c =
     (c \<in> set [0x0009, 0x000A, 0x000B, 0x000C, 0x000D, 0x0020, 0x00A0, 0x1680,
               0x2000, 0x2001, 0x2002, 0x2003, 0x2004, 0x2005, 0x2006, 0x2007, 0x2008,
               0x2009, 0x200A, 0x2028, 0x2029, 0x202F, 0x205F, 0x3000, 0xFEFF])"

definition trim :: "ustring \<Rightarrow> ustring" where
  "trim s = rev (dropWhile isWhiteSpace (rev (dropWhile isWhiteSpace s)))"

section \<open>Entities and component state\<close>

text \<open>
  A tourist and an incident have the fields of the seed data. \<^verbatim>\<open>status\<close> and
  \<^verbatim>\<open>severity\<close> are only ever compared with \<^verbatim>\<open>===\<close>, so they are kept as \<open>jsval\<close>
  (\<open>JUndefined\<close> for a missing field); \<^verbatim>\<open>name\<close> is a string, as
  \<^verbatim>\<open>tourist.name.toLowerCase()\<close> requires, kept as its code units.
\<close>

record tourist =
  tourist_id :: string
  tourist_name :: ustring
  tourist_location :: "rat \<times> rat"
  tourist_status :: jsval
  tourist_lastUpdate :: string
  tourist_phone :: string
  tourist_safetyScore :: int

record incident =
  incident_id :: string
  incident_touristName :: string
  incident_type :: string
  incident_location :: "rat \<times> rat"
  incident_timestamp :: string
  incident_status :: jsval
  incident_severity :: jsval

definition mockTourists :: "tourist list" where
  "mockTourists =
     [\<lparr>tourist_id = ''1'', tourist_name = utf16 ''John Doe'', tourist_location = (28.6139, 77.2090),
       tourist_status = JStr ''safe'', tourist_lastUpdate = ''2 mins ago'',
       tourist_phone = ''+91-9876543210'', tourist_safetyScore = 85\<rparr>,
      \<lparr>tourist_id = ''2'', tourist_name = utf16 ''Sarah Smith'', tourist_location = (28.6129, 77.2295),
       tourist_status = JStr ''alert'', tourist_lastUpdate = ''5 mins ago'',
       tourist_phone = ''+91-9876543211'', tourist_safetyScore = 60\<rparr>,
      \<lparr>tourist_id = ''3'', tourist_name = utf16 ''Mike Johnson'', tourist_location = (28.6169, 77.2310),
       tourist_status = JStr ''emergency'', tourist_lastUpdate = ''1 min ago'',
       tourist_phone = ''+91-9876543212'', tourist_safetyScore = 30\<rparr>,
      \<lparr>tourist_id = ''4'', tourist_name = utf16 ''Emma Wilson'', tourist_location = (28.6200, 77.2100),
       tourist_status = JStr ''safe'', tourist_lastUpdate = ''3 mins ago'',
       tourist_phone = ''+91-9876543213'', tourist_safetyScore = 90\<rparr>]"

definition mockIncidents :: "incident list" where
  "mockIncidents =
     [\<lparr>incident_id = ''INC001'', incident_touristName = ''Mike Johnson'',
       incident_type = ''Emergency Alert'', incident_location = (28.6169, 77.2310),
       incident_timestamp = ''2024-09-25 14:30'', incident_status = JStr ''active'',
       incident_severity = JStr ''high''\<rparr>,
      \<lparr>incident_id = ''INC002'', incident_touristName = ''Sarah Smith'',
       incident_type = ''Geo-fence Violation'', incident_location = (28.6129, 77.2295),
       incident_timestamp = ''2024-09-25 14:25'', incident_status = JStr ''investigating'',
       incident_severity = JStr ''medium''\<rparr>,
      \<lparr>incident_id = ''INC003'', incident_touristName = ''Alex Brown'',
       incident_type = ''Inactivity Alert'', incident_location = (28.6150, 77.2200),
       incident_timestamp = ''2024-09-25 13:45'', incident_status = JStr ''resolved'',
       incident_severity = JStr ''low''\<rparr>]"

text \<open>
  The two forms. Every field is the text of an input element, hence a string. The
  fields of the login form are only sent; those of the registration form are compared
  and trimmed, and are kept as code units.
\<close>

record login_form =
  login_username :: string
  login_password :: string

record register_form =
  username :: ustring
  email :: ustring
  password :: ustring
  confirmPassword :: ustring
  full_name :: ustring
  phone :: ustring
  department :: ustring
  rank :: ustring
  station_id :: ustring
  role :: ustring

definition emptyRegisterData :: register_form where
  "emptyRegisterData =
     \<lparr>username = [], email = [], password = [], confirmPassword = [], full_name = [],
      phone = [], department = [], rank = [], station_id = [], role = utf16 ''officer''\<rparr>"

text \<open>
  \<^verbatim>\<open>registerData[field]\<close>. The component reads it for the names in
  \<^verbatim>\<open>requiredFields\<close> only; the last branch stands for no other read.
\<close>

definition registerData_at :: "register_form \<Rightarrow> string \<Rightarrow> ustring" where
  "registerData_at rd field =
     (if field = ''username'' then username rd
      else if field = ''email'' then email rd
      else if field = ''password'' then password rd
      else if field = ''confirmPassword'' then confirmPassword rd
      else if field = ''full_name'' then full_name rd
      else if field = ''phone'' then phone rd
      else if field = ''department'' then department rd
      else if field = ''rank'' then rank rd
      else if field = ''station_id'' then station_id rd
      else if field = ''role'' then role rd
      else [])"

text \<open>
  The calls that reach the gateway. Each function of \<^verbatim>\<open>apiService\<close> calls \<^verbatim>\<open>fetch\<close> once;
  the state records them in the order they are issued. The three \<^verbatim>\<open>GET\<close>s of the
  dashboard and \<^verbatim>\<open>/auth/me\<close> carry the bearer token.
\<close>

datatype request =
    POST_register "(string \<times> ustring) list"
  | POST_login string string
  | GET_me string
  | GET_stats string
  | GET_tourists string
  | GET_incidents string

text \<open>
  The state of the component (the \<^verbatim>\<open>useState\<close> cells that the handlers below read or
  write, and the search box), the \<^verbatim>\<open>auth_token\<close> entry of \<^verbatim>\<open>localStorage\<close>, and the
  requests issued so far. The tab, the selections, the map centre and the dialog flag
  are written by no handler modelled here and are left out.
\<close>

record app =
  isLoggedIn :: bool
  showRegister :: bool
  currentUser :: jsval
  authLoading :: bool
  authError :: jsval
  loginData :: login_form
  registerData :: register_form
  searchQuery :: ustring
  tourists :: "tourist list"
  incidents :: "incident list"
  dashboardStats :: jsval
  auth_token :: "string option"
  sent :: "request list"

text \<open>The first render: the arguments of the \<^verbatim>\<open>useState\<close> calls, over a given storage.\<close>

definition initialApp :: "string option \<Rightarrow> app" where
  "initialApp stored =
     \<lparr>isLoggedIn = False, showRegister = False, currentUser = JNull, authLoading = False,
      authError = JStr [], loginData = \<lparr>login_username = [], login_password = []\<rparr>,
      registerData = emptyRegisterData, searchQuery = [],
      tourists = mockTourists, incidents = mockIncidents,
      dashboardStats = JObj [(''active_tourists'', JNum 4), (''active_incidents'', JNum 1),
                             (''safe_tourists'', JNum 3), (''efirs_today'', JNum 3)],
      auth_token = stored, sent = []\<rparr>"

text \<open>The Domain Model: the three collections the Aggregation Coordinator owns.\<close>

definition domainModel :: "app \<Rightarrow> jsval \<times> tourist list \<times> incident list" where
  "domainModel s = (dashboardStats s, tourists s, incidents s)"

section \<open>The gateway\<close>

text \<open>
  Every function of \<^verbatim>\<open>apiService\<close> is \<^verbatim>\<open>const response = await fetch(...); return
  response.json()\<close>. \<^verbatim>\<open>fetch\<close> rejects when the transport fails and resolves on every
  HTTP status; \<^verbatim>\<open>response.json()\<close> rejects when the body is not JSON. The status is
  never looked at, so the promise of the call is rejected in those two cases only. The
  body of a reply is a \<open>jsval\<close> for the calls whose result the component inspects; for
  the tourists and incidents calls it is taken to be an array of tourists or incidents.
\<close>

datatype 'a http_reply = Network_failure | Reply nat "'a option"

fun fetch_json :: "'a http_reply \<Rightarrow> js_error + 'a" where
  "fetch_json Network_failure = Inl NetworkError"
| "fetch_json (Reply status None) = Inl SyntaxError"
| "fetch_json (Reply status (Some body)) = Inr body"

text \<open>
  \<^verbatim>\<open>Promise.all\<close> of three promises: rejected as soon as one of them is, fulfilled with
  the three values otherwise. Which rejection it reports depends on the order of
  arrival; the handler only logs it, and the model reports the first in the array.
\<close>

fun promise_all3 ::
  "js_error + 'a \<Rightarrow> js_error + 'b \<Rightarrow> js_error + 'c \<Rightarrow> js_error + ('a \<times> 'b \<times> 'c)" where
  "promise_all3 (Inl e) b c = Inl e"
| "promise_all3 (Inr x) (Inl e) c = Inl e"
| "promise_all3 (Inr x) (Inr y) (Inl e) = Inl e"
| "promise_all3 (Inr x) (Inr y) (Inr z) = Inr (x, y, z)"

section \<open>Handlers\<close>

text \<open>
  An \<^verbatim>\<open>async\<close> function runs up to its first \<^verbatim>\<open>await\<close> when it is called and
  resumes when the awaited promise settles. Each is therefore two functions on the
  state: the one of its name is the part that runs at the call and issues the request;
  the one suffixed \<open>_settled\<close> is the rest, given how the promise settled (\<open>Inl\<close>: it was
  rejected, and control is in the \<^verbatim>\<open>catch\<close>). A state setter is an update of the
  record, in the order of the source.
\<close>

definition loadDashboardData :: "jsval \<Rightarrow> app \<Rightarrow> app" where
  "loadDashboardData token s =
     s\<lparr>sent := sent s @
        [GET_stats (ToString token), GET_tourists (ToString token),
         GET_incidents (ToString token)]\<rparr>"

text \<open>
  The rest of \<^verbatim>\<open>loadDashboardData\<close>. Its \<^verbatim>\<open>token\<close> is still in scope and is not read;
  nothing else tells one call from another.
\<close>

definition loadDashboardData_settled ::
  "jsval \<Rightarrow> js_error + jsval \<Rightarrow> js_error + tourist list \<Rightarrow> js_error + incident list \<Rightarrow>
   app \<Rightarrow> app" where
  "loadDashboardData_settled token stats touristsData incidentsData s =
     (case promise_all3 stats touristsData incidentsData of
        Inl error \<Rightarrow> s
      | Inr (stats', touristsData', incidentsData') \<Rightarrow>
          s\<lparr>dashboardStats := stats', tourists := touristsData',
            incidents := incidentsData'\<rparr>)"

definition verifyToken :: "string \<Rightarrow> app \<Rightarrow> app" where
  "verifyToken token s = s\<lparr>sent := sent s @ [GET_me token]\<rparr>"

definition verifyToken_settled :: "string \<Rightarrow> js_error + jsval \<Rightarrow> app \<Rightarrow> app" where
  "verifyToken_settled token r s =
     (case r of
        Inl error \<Rightarrow> s\<lparr>auth_token := None\<rparr>
      | Inr userData \<Rightarrow>
          (case get_prop userData ''username'' of
             Inl error \<Rightarrow> s\<lparr>auth_token := None\<rparr>
           | Inr u \<Rightarrow>
               if truthy u
               then loadDashboardData (JStr token)
                      (s\<lparr>currentUser := userData, isLoggedIn := True\<rparr>)
               else s\<lparr>auth_token := None\<rparr>))"

text \<open>The effect that runs after the first render.\<close>

definition mount :: "app \<Rightarrow> app" where
  "mount s =
     (case auth_token s of
        None \<Rightarrow> s
      | Some token \<Rightarrow> if token \<noteq> [] then verifyToken token s else s)"

definition requiredFields :: "string list" where
  "requiredFields =
     [''username'', ''email'', ''password'', ''full_name'', ''phone'', ''department'',
      ''rank'', ''station_id'']"

text \<open>
  \<^verbatim>\<open>requiredFields.filter(field => !registerData[field].trim())\<close>; \<^verbatim>\<open>!\<close> of a string is
  true for the empty string only.
\<close>

definition missingFields :: "register_form \<Rightarrow> string list" where
  "missingFields rd =
     filter (\<lambda>field. trim (registerData_at rd field) = []) requiredFields"

text \<open>\<^verbatim>\<open>const { confirmPassword, ...registrationData } = registerData\<close>.\<close>

definition registrationData :: "register_form \<Rightarrow> (string \<times> ustring) list" where
  "registrationData rd =
     [(''username'', username rd), (''email'', email rd), (''password'', password rd),
      (''full_name'', full_name rd), (''phone'', phone rd), (''department'', department rd),
      (''rank'', rank rd), (''station_id'', station_id rd), (''role'', role rd)]"

definition handleRegister :: "app \<Rightarrow> app" where
  "handleRegister s =
     (let s1 = s\<lparr>authLoading := True, authError := JStr []\<rparr> in
      if password (registerData s) \<noteq> confirmPassword (registerData s)
      then s1\<lparr>authError := JStr ''Passwords do not match'', authLoading := False\<rparr>
      else if 0 < length (missingFields (registerData s))
      then s1\<lparr>authError :=
                JStr (''Please fill in all required fields: '' @
                      join '', '' (missingFields (registerData s))),
              authLoading := False\<rparr>
      else s1\<lparr>sent := sent s1 @ [POST_register (registrationData (registerData s))]\<rparr>)"

definition handleRegister_settled :: "js_error + jsval \<Rightarrow> app \<Rightarrow> app" where
  "handleRegister_settled r s =
     (let caught = s\<lparr>authError := JStr ''Registration failed. Please try again.'',
                      authLoading := False\<rparr> in
      case r of
        Inl error \<Rightarrow> caught
      | Inr response \<Rightarrow>
          (case get_prop response ''username'' of
             Inl error \<Rightarrow> caught
           | Inr u \<Rightarrow>
               if truthy u
               then s\<lparr>authError := JStr [], showRegister := False,
                      authError :=
                        JStr ''Registration successful! Please login with your credentials.'',
                      registerData := emptyRegisterData, authLoading := False\<rparr>
               else (case get_prop response ''detail'' of
                       Inl error \<Rightarrow> caught
                     | Inr detail \<Rightarrow>
                         s\<lparr>authError := js_or detail (JStr ''Registration failed''),
                           authLoading := False\<rparr>)))"

definition handleLogin :: "app \<Rightarrow> app" where
  "handleLogin s =
     s\<lparr>authLoading := True, authError := JStr [],
       sent := sent s @
         [POST_login (login_username (loginData s)) (login_password (loginData s))]\<rparr>"

definition handleLogin_settled :: "js_error + jsval \<Rightarrow> app \<Rightarrow> app" where
  "handleLogin_settled r s =
     (let caught = (\<lambda>s'. s'\<lparr>authError := JStr ''Login failed. Please check your credentials.'',
                             authLoading := False\<rparr>) in
      case r of
        Inl error \<Rightarrow> caught s
      | Inr response \<Rightarrow>
          (case get_prop response ''access_token'' of
             Inl error \<Rightarrow> caught s
           | Inr access_token \<Rightarrow>
               if truthy access_token
               then (let s1 = s\<lparr>auth_token := Some (ToString access_token)\<rparr> in
                     case get_prop response ''user'' of
                       Inl error \<Rightarrow> caught s1
                     | Inr user \<Rightarrow>
                         (loadDashboardData access_token
                            (s1\<lparr>currentUser := user, isLoggedIn := True,
                                authError := JStr []\<rparr>))
                         \<lparr>authLoading := False\<rparr>)
               else (case get_prop response ''detail'' of
                       Inl error \<Rightarrow> caught s
                     | Inr detail \<Rightarrow>
                         s\<lparr>authError := js_or detail (JStr ''Invalid credentials''),
                           authLoading := False\<rparr>)))"

definition handleLogout :: "app \<Rightarrow> app" where
  "handleLogout s =
     s\<lparr>auth_token := None, isLoggedIn := False, currentUser := JNull,
       loginData := \<lparr>login_username = [], login_password = []\<rparr>\<rparr>"

section \<open>Runs of the component\<close>

text \<open>
  JavaScript runs one task at a time. A run of the component is the list of the tasks
  in the order they ran: the first effect, typing in the login form or in the search
  box, a form being submitted, the logout button, and the reply to a call of the
  gateway reaching the function that awaits it. The events of replies carry the
  \<^verbatim>\<open>token\<close> argument of the awaiting call, and the dashboard's event the replies to
  its three requests.
\<close>

datatype event =
    Mount
  | Login_username_input string
  | Login_password_input string
  | Search_input ustring
  | Me_reply string "jsval http_reply"
  | Register_submit
  | Register_reply "jsval http_reply"
  | Login_submit
  | Login_reply "jsval http_reply"
  | Logout
  | Dashboard_replies jsval "jsval http_reply" "tourist list http_reply"
      "incident list http_reply"

fun step :: "event \<Rightarrow> app \<Rightarrow> app" where
  "step Mount s = mount s"
| "step (Login_username_input v) s = s\<lparr>loginData := (loginData s)\<lparr>login_username := v\<rparr>\<rparr>"
| "step (Login_password_input v) s = s\<lparr>loginData := (loginData s)\<lparr>login_password := v\<rparr>\<rparr>"
| "step (Search_input v) s = s\<lparr>searchQuery := v\<rparr>"
| "step (Me_reply token r) s = verifyToken_settled token (fetch_json r) s"
| "step Register_submit s = handleRegister s"
| "step (Register_reply r) s = handleRegister_settled (fetch_json r) s"
| "step Login_submit s = handleLogin s"
| "step (Login_reply r) s = handleLogin_settled (fetch_json r) s"
| "step Logout s = handleLogout s"
| "step (Dashboard_replies token r1 r2 r3) s =
     loadDashboardData_settled token (fetch_json r1) (fetch_json r2) (fetch_json r3) s"

fun run :: "event list \<Rightarrow> app \<Rightarrow> app" where
  "run [] s = s"
| "run (e # es) s = run es (step e s)"

section \<open>What the dashboard shows\<close>

text \<open>
  The four cards: \<^verbatim>\<open>dashboardStats.active_tourists || tourists.length\<close>,
  \<^verbatim>\<open>dashboardStats.active_incidents || incidents.filter(i => i.status === 'active').length\<close>,
  \<^verbatim>\<open>dashboardStats.safe_tourists || tourists.filter(t => t.status === 'safe').length\<close> and
  \<^verbatim>\<open>dashboardStats.efirs_today || 3\<close>. Reading a property of \<^verbatim>\<open>null\<close> throws.
\<close>

definition activeTouristsCard :: "jsval \<Rightarrow> tourist list \<Rightarrow> js_error + jsval" where
  "activeTouristsCard stats ts =
     (case get_prop stats ''active_tourists'' of
        Inl error \<Rightarrow> Inl error
      | Inr v \<Rightarrow> Inr (js_or v (JNum (int (length ts)))))"

definition activeIncidentsCard :: "jsval \<Rightarrow> incident list \<Rightarrow> js_error + jsval" where
  "activeIncidentsCard stats incs =
     (case get_prop stats ''active_incidents'' of
        Inl error \<Rightarrow> Inl error
      | Inr v \<Rightarrow>
          Inr (js_or v
                 (JNum (int (length (filter (\<lambda>i. incident_status i = JStr ''active'') incs))))))"

definition safeTouristsCard :: "jsval \<Rightarrow> tourist list \<Rightarrow> js_error + jsval" where
  "safeTouristsCard stats ts =
     (case get_prop stats ''safe_tourists'' of
        Inl error \<Rightarrow> Inl error
      | Inr v \<Rightarrow>
          Inr (js_or v
                 (JNum (int (length (filter (\<lambda>t. tourist_status t = JStr ''safe'') ts))))))"

definition efirsTodayCard :: "jsval \<Rightarrow> js_error + jsval" where
  "efirsTodayCard stats =
     (case get_prop stats ''efirs_today'' of
        Inl error \<Rightarrow> Inl error
      | Inr v \<Rightarrow> Inr (js_or v (JNum 3)))"

text \<open>
  The tourist list of the \<^verbatim>\<open>tourists\<close> tab:
  \<^verbatim>\<open>tourists.filter(tourist => tourist.name.toLowerCase().includes(searchQuery.toLowerCase()))\<close>.
  \<^verbatim>\<open>String.prototype.toLowerCase\<close> is the default lower-casing of Unicode. It reads the
  case tables of the Unicode Character Database, which are no part of the repository, so
  the filter takes the function as its first argument.
\<close>

definition filterTourists ::
  "(ustring \<Rightarrow> ustring) \<Rightarrow> tourist list \<Rightarrow> ustring \<Rightarrow> tourist list" where
  "filterTourists toLowerCase ts query =
     filter (\<lambda>tourist. includes_str (toLowerCase (tourist_name tourist)) (toLowerCase query)) ts"

section \<open>Notions of the specification\<close>

text \<open>
  The specification's words, stated apart from the code and compared with it below.
  Two code units are the same letter up to case when they are equal or one is a capital
  of \<^verbatim>\<open>A\<close> to \<^verbatim>\<open>Z\<close> and the other its small letter. A name contains a query as a
  case-insensitive substring when some contiguous part of the name is the query, unit by
  unit, up to case.
\<close>

definition sameLetter :: "16 word \<Rightarrow> 16 word \<Rightarrow> bool" where
  "sameLetter a b =
     (a = b \<or> (0x41 \<le> a \<and> a \<le> 0x5A \<and> b = a + 0x20) \<or>
      (0x41 \<le> b \<and> b \<le> 0x5A \<and> a = b + 0x20))"

definition containsIgnoringCase :: "ustring \<Rightarrow> ustring \<Rightarrow> bool" where
  "containsIgnoringCase name query =
     (\<exists>pre mid suf. name = pre @ mid @ suf \<and> list_all2 sameLetter mid query)"

text \<open>
  What is known of the lower-casing of Unicode on Basic Latin: a string of code units
  below U+0080 is lower-cased unit by unit, the capitals \<^verbatim>\<open>A\<close> to \<^verbatim>\<open>Z\<close> going to their
  small letters and every other unit staying.
\<close>

definition isAscii :: "ustring \<Rightarrow> bool" where
  "isAscii s = list_all (\<lambda>c. c < 0x80) s"

definition asciiLower :: "16 word \<Rightarrow> 16 word" where
  "asciiLower c = (if 0x41 \<le> c \<and> c \<le> 0x5A then c + 0x20 else c)"

definition lowerCasesAscii :: "(ustring \<Rightarrow> ustring) \<Rightarrow> bool" where
  "lowerCasesAscii toLowerCase = (\<forall>s. isAscii s \<longrightarrow> toLowerCase s = map asciiLower s)"

text \<open>
  The lower-casing of Unicode on the strings of Basic Latin and the Greek letters
  U+0391 to U+03A9 and U+03B1 to U+03C9, to have the function at hand on examples. On
  this repertoire the capitals are 32 below their small letters, the cased letters are
  the letters, and the case-ignorable units are the apostrophe, the full stop, the
  colon, the circumflex and the grave accent. Capital sigma becomes the final small sigma
  U+03C2 when it ends a word (a cased letter comes before it, after skipping
  case-ignorable units, and none comes after it, skipping likewise), and U+03C3
  otherwise. Code units outside the repertoire are not covered; the function leaves
  them as they are.
\<close>

definition isCased :: "16 word \<Rightarrow> bool" where
  "isCased c =
     ((0x41 \<le> c \<and> c \<le> 0x5A) \<or> (0x61 \<le> c \<and> c \<le> 0x7A) \<or> (0x391 \<le> c \<and> c \<le> 0x3A1) \<or>
      (0x3A3 \<le> c \<and> c \<le> 0x3A9) \<or> (0x3B1 \<le> c \<and> c \<le> 0x3C9))"

definition isCaseIgnorable :: "16 word \<Rightarrow> bool" where
  "isCaseIgnorable c = (c \<in> set [0x27, 0x2E, 0x3A, 0x5E, 0x60])"

definition lowerUnit :: "16 word \<Rightarrow> 16 word" where
  "lowerUnit c =
     (if (0x41 \<le> c \<and> c \<le> 0x5A) \<or> (0x391 \<le> c \<and> c \<le> 0x3A1) \<or> (0x3A3 \<le> c \<and> c \<le> 0x3A9)
      then c + 0x20 else c)"

definition isFinalSigma :: "ustring \<Rightarrow> ustring \<Rightarrow> bool" where
  "isFinalSigma before after =
     ((case dropWhile isCaseIgnorable before of [] \<Rightarrow> False | b # rest \<Rightarrow> isCased b) \<and>
      (case dropWhile isCaseIgnorable after of [] \<Rightarrow> True | a # rest \<Rightarrow> \<not> isCased a))"

text \<open>\<open>before\<close> holds the code units already passed, the nearest first.\<close>

fun lowerFrom :: "ustring \<Rightarrow> ustring \<Rightarrow> ustring" where
  "lowerFrom before [] = []"
| "lowerFrom before (c # after) =
     (if c = 0x3A3 then (if isFinalSigma before after then 0x3C2 else 0x3C3)
      else lowerUnit c) # lowerFrom (c # before) after"

definition toLowerCase_LatinGreek :: "ustring \<Rightarrow> ustring" where
  "toLowerCase_LatinGreek s = lowerFrom [] s"

text \<open>A tourist whose name is the Greek \<^verbatim>\<open>NIKOS\<close> in capitals, U+039D U+0399 U+039A U+039F U+03A3.\<close>

definition nikos :: tourist where
  "nikos =
     \<lparr>tourist_id = ''5'', tourist_name = [0x39D, 0x399, 0x39A, 0x39F, 0x3A3],
      tourist_location = (28.6139, 77.2090), tourist_status = JStr ''safe'',
      tourist_lastUpdate = ''1 min ago'', tourist_phone = ''+30-2101234567'',
      tourist_safetyScore = 80\<rparr>"

text \<open>
  A field of the registration form is blank when it is made of white space only, which
  is when trimming leaves nothing of it.
\<close>

definition blankText :: "ustring \<Rightarrow> bool" where
  "blankText s = list_all isWhiteSpace s"

text \<open>Two registration forms that are submitted below.\<close>

definition blankForm :: register_form where
  "blankForm =
     emptyRegisterData
       \<lparr>username := [0x00A0], email := [], password := utf16 ''abc123'',
        confirmPassword := utf16 ''abc123'', full_name := utf16 ''   '', phone := [0x0009],
        department := [0x3000], rank := [0x2028], station_id := [0xFEFF]\<rparr>"

definition paddedForm :: register_form where
  "paddedForm =
     emptyRegisterData
       \<lparr>username := utf16 '' asha '', email := [0x00A0, 0x0020],
        password := utf16 ''abc123'', confirmPassword := utf16 ''abc123'',
        full_name := utf16 ''Asha Rao'', phone := utf16 ''+91-9876500000 '',
        department := utf16 ''Traffic'', rank := utf16 ''SI'', station_id := utf16 ''PS-12''\<rparr>"

text \<open>The count of the elements of a collection that satisfy a condition.\<close>

definition count_where :: "('a \<Rightarrow> bool) \<Rightarrow> 'a list \<Rightarrow> nat" where
  "count_where P xs = card {i. i < length xs \<and> P (xs ! i)}"

text \<open>
  \<^verbatim>\<open>getCurrentUser\<close> rejects the persisted token: the call fails, or what it returns
  has no \<^verbatim>\<open>username\<close> to show (it is \<^verbatim>\<open>null\<close>, it has no such field, or the field is
  falsy).
\<close>

definition rejectsToken :: "jsval http_reply \<Rightarrow> bool" where
  "rejectsToken r =
     (case fetch_json r of
        Inl error \<Rightarrow> True
      | Inr userData \<Rightarrow>
          (case get_prop userData ''username'' of
             Inl error \<Rightarrow> True
           | Inr u \<Rightarrow> \<not> truthy u))"

text \<open>
  A run with two sessions. An officer logs in (session A, \<^verbatim>\<open>tokenA\<close>), which starts
  refresh cycle A; she logs out before its replies arrive, and a second officer logs in
  (session B, \<^verbatim>\<open>tokenB\<close>), which starts cycle B. The replies of cycle B arrive first.
  \<open>cycleA_late\<close> is the arrival of the replies of cycle A after that.
\<close>

definition sessionB_run :: "event list" where
  "sessionB_run =
     [Login_username_input ''asha'', Login_password_input ''secretA'',
      Login_submit,
      Login_reply (Reply 200 (Some (JObj [(''access_token'', JStr ''tokenA''),
                                          (''user'', JObj [(''username'', JStr ''asha'')])]))),
      Logout,
      Login_username_input ''ravi'', Login_password_input ''secretB'',
      Login_submit,
      Login_reply (Reply 200 (Some (JObj [(''access_token'', JStr ''tokenB''),
                                          (''user'', JObj [(''username'', JStr ''ravi'')])]))),
      Dashboard_replies (JStr ''tokenB'')
        (Reply 200 (Some (JObj [(''active_tourists'', JNum 2)])))
        (Reply 200 (Some (drop 2 mockTourists)))
        (Reply 200 (Some (take 1 mockIncidents)))]"

definition cycleA_late :: event where
  "cycleA_late =
     Dashboard_replies (JStr ''tokenA'')
       (Reply 200 (Some (JObj [(''active_tourists'', JNum 1)])))
       (Reply 200 (Some (take 1 mockTourists)))
       (Reply 200 (Some []))"

section \<open>Refreshing the dashboard\<close>




text \<open>
  What counts as a failure is the rejection of the call's promise. A reply with an
  error status and a JSON body is a result like any other, and is stored.
\<close>

lemma http_error_body_is_stored:
  "dashboardStats
     (step (Dashboard_replies token
              (Reply 401 (Some (JObj [(''detail'', JStr ''Not authenticated'')])))
              (Reply 200 (Some ts)) (Reply 200 (Some incs))) s) =
   JObj [(''detail'', JStr ''Not authenticated'')]"
  by (simp add: loadDashboardData_settled_def)

text \<open>
  The run with two sessions. When cycle B has completed, the model holds the results of
  cycle B. The replies of cycle A, the cycle of the session that was logged out, arrive
  next: the session is still B's, and the model now holds the results of cycle A.
\<close>

theorem stale_refresh_overwrites:
  "auth_token (run sessionB_run (initialApp None)) = Some ''tokenB'' \<and>
   domainModel (run sessionB_run (initialApp None)) =
     (JObj [(''active_tourists'', JNum 2)], drop 2 mockTourists, take 1 mockIncidents) \<and>
   auth_token (run (sessionB_run @ [cycleA_late]) (initialApp None)) = Some ''tokenB'' \<and>
   currentUser (run (sessionB_run @ [cycleA_late]) (initialApp None)) =
     JObj [(''username'', JStr ''ravi'')] \<and>
   domainModel (run (sessionB_run @ [cycleA_late]) (initialApp None)) =
     (JObj [(''active_tourists'', JNum 1)], take 1 mockTourists, []) \<and>
   domainModel (run (sessionB_run @ [cycleA_late]) (initialApp None)) \<noteq>
     domainModel (run sessionB_run (initialApp None)) \<and>
   sent (run (sessionB_run @ [cycleA_late]) (initialApp None)) =
     [POST_login ''asha'' ''secretA'',
      GET_stats ''tokenA'', GET_tourists ''tokenA'', GET_incidents ''tokenA'',
      POST_login ''ravi'' ''secretB'',
      GET_stats ''tokenB'', GET_tourists ''tokenB'', GET_incidents ''tokenB'']"
  by (simp add: sessionB_run_def cycleA_late_def initialApp_def handleLogin_def
        handleLogin_settled_def handleLogout_def loadDashboardData_def
        loadDashboardData_settled_def Let_def domainModel_def)

text \<open>
  C2, as the code has it. The component keeps no sequence number and compares no
  token: when the replies of a refresh cycle A arrive, in whatever state \<open>s\<close> the
  component is then (in particular after a cycle B of a newer session has completed),
  the Domain Model becomes the results of A if its three requests succeeded, and stays
  what it was only if one of them failed. The session (stored token, login flag,
  officer) is not touched.
\<close>

theorem late_refresh_replaces_model:
  "domainModel (step (Dashboard_replies tokenA a1 a2 a3) s) =
     (case promise_all3 (fetch_json a1) (fetch_json a2) (fetch_json a3) of
        Inl error \<Rightarrow> domainModel s
      | Inr modelA \<Rightarrow> modelA) \<and>
   auth_token (step (Dashboard_replies tokenA a1 a2 a3) s) = auth_token s \<and>
   isLoggedIn (step (Dashboard_replies tokenA a1 a2 a3) s) = isLoggedIn s \<and>
   currentUser (step (Dashboard_replies tokenA a1 a2 a3) s) = currentUser s"
  by (simp add: loadDashboardData_settled_def domainModel_def split: sum.splits prod.splits)

theorem late_refresh_replaces_model_witness:
  "domainModel
     (step (Dashboard_replies (JStr ''tokenA'')
              (Reply 200 (Some (JObj [(''active_tourists'', JNum 1)])))
              (Reply 200 (Some (take 1 mockTourists))) (Reply 200 (Some [])))
        (run sessionB_run (initialApp None))) =
   (JObj [(''active_tourists'', JNum 1)], take 1 mockTourists, [])"
  using late_refresh_replaces_model
    [of "JStr ''tokenA''" "Reply 200 (Some (JObj [(''active_tourists'', JNum 1)]))"
        "Reply 200 (Some (take 1 mockTourists))" "Reply 200 (Some [])"
        "run sessionB_run (initialApp None)"]
  by simp

section \<open>The statistics cards\<close>

text \<open>A value of the statistics that is truthy is what its card shows.\<close>

lemma truthy_stat_is_shown:
  assumes "truthy v"
  shows "get_prop stats ''active_tourists'' = Inr v \<Longrightarrow> activeTouristsCard stats ts = Inr v"
    and "get_prop stats ''active_incidents'' = Inr v \<Longrightarrow> activeIncidentsCard stats incs = Inr v"
    and "get_prop stats ''safe_tourists'' = Inr v \<Longrightarrow> safeTouristsCard stats ts = Inr v"
    and "get_prop stats ''efirs_today'' = Inr v \<Longrightarrow> efirsTodayCard stats = Inr v"
  using assms
  by (simp_all add: activeTouristsCard_def activeIncidentsCard_def safeTouristsCard_def
        efirsTodayCard_def js_or_def)

text \<open>
  C3. The server supplies all four aggregates, each with the value 0, and the
  collections are the seed data. No card shows 0: \<^verbatim>\<open>||\<close> takes 0 for an absent value,
  and the cards show 4, 1, 2 and the constant 3.
\<close>

theorem zero_stat_replaced_by_fallback:
  "activeTouristsCard (JObj [(''active_tourists'', JNum 0), (''active_incidents'', JNum 0),
       (''safe_tourists'', JNum 0), (''efirs_today'', JNum 0)]) mockTourists = Inr (JNum 4) \<and>
   activeIncidentsCard (JObj [(''active_tourists'', JNum 0), (''active_incidents'', JNum 0),
       (''safe_tourists'', JNum 0), (''efirs_today'', JNum 0)]) mockIncidents = Inr (JNum 1) \<and>
   safeTouristsCard (JObj [(''active_tourists'', JNum 0), (''active_incidents'', JNum 0),
       (''safe_tourists'', JNum 0), (''efirs_today'', JNum 0)]) mockTourists = Inr (JNum 2) \<and>
   efirsTodayCard (JObj [(''active_tourists'', JNum 0), (''active_incidents'', JNum 0),
       (''safe_tourists'', JNum 0), (''efirs_today'', JNum 0)]) = Inr (JNum 3)"
  by (simp add: activeTouristsCard_def activeIncidentsCard_def safeTouristsCard_def
        efirsTodayCard_def js_or_def mockTourists_def mockIncidents_def)

lemma length_filter_count_where: "length (filter P xs) = count_where P xs"
  by (simp add: count_where_def length_filter_conv_card)

text \<open>
  C4. When the statistics have no \<^verbatim>\<open>active_incidents\<close>, the card shows the count of
  the incidents whose status is \<^verbatim>\<open>'active'\<close>; when they have no \<^verbatim>\<open>safe_tourists\<close>, the
  card shows the count of the tourists whose status is \<^verbatim>\<open>'safe'\<close>. For tourists with
  the statuses safe, alert, emergency, safe that count is 2.
\<close>

theorem local_counts_when_absent:
  "(get_prop stats ''active_incidents'' = Inr JUndefined \<longrightarrow>
      activeIncidentsCard stats incs =
        Inr (JNum (int (count_where (\<lambda>i. incident_status i = JStr ''active'') incs)))) \<and>
   (get_prop stats ''safe_tourists'' = Inr JUndefined \<longrightarrow>
      safeTouristsCard stats ts =
        Inr (JNum (int (count_where (\<lambda>t. tourist_status t = JStr ''safe'') ts)))) \<and>
   (get_prop stats ''safe_tourists'' = Inr JUndefined \<and>
    map tourist_status ts = [JStr ''safe'', JStr ''alert'', JStr ''emergency'', JStr ''safe''] \<longrightarrow>
      safeTouristsCard stats ts = Inr (JNum 2))"
proof -
  have "length (filter (\<lambda>t. tourist_status t = JStr ''safe'') ts) = 2"
    if "map tourist_status ts = [JStr ''safe'', JStr ''alert'', JStr ''emergency'', JStr ''safe'']"
  proof -
    have "length (filter (\<lambda>t. tourist_status t = JStr ''safe'') ts) =
          length (filter (\<lambda>v. v = JStr ''safe'') (map tourist_status ts))"
      by (simp add: filter_map comp_def)
    with that show ?thesis by simp
  qed
  then show ?thesis
    by (simp add: activeIncidentsCard_def safeTouristsCard_def js_or_def
          length_filter_count_where [symmetric])
qed

theorem local_counts_when_absent_witness:
  "get_prop (JObj [(''active_tourists'', JNum 4), (''efirs_today'', JNum 3)])
     ''active_incidents'' = Inr JUndefined \<and>
   get_prop (JObj [(''active_tourists'', JNum 4), (''efirs_today'', JNum 3)])
     ''safe_tourists'' = Inr JUndefined \<and>
   map tourist_status mockTourists =
     [JStr ''safe'', JStr ''alert'', JStr ''emergency'', JStr ''safe''] \<and>
   activeIncidentsCard (JObj [(''active_tourists'', JNum 4), (''efirs_today'', JNum 3)])
     mockIncidents = Inr (JNum 1) \<and>
   safeTouristsCard (JObj [(''active_tourists'', JNum 4), (''efirs_today'', JNum 3)])
     mockTourists = Inr (JNum 2)"
proof -
  have a: "get_prop (JObj [(''active_tourists'', JNum 4), (''efirs_today'', JNum 3)])
             ''active_incidents'' = Inr JUndefined"
    by simp
  have b: "get_prop (JObj [(''active_tourists'', JNum 4), (''efirs_today'', JNum 3)])
             ''safe_tourists'' = Inr JUndefined"
    by simp
  have c: "map tourist_status mockTourists =
             [JStr ''safe'', JStr ''alert'', JStr ''emergency'', JStr ''safe'']"
    by (simp add: mockTourists_def)
  have d: "count_where (\<lambda>i. incident_status i = JStr ''active'') mockIncidents = 1"
    by (simp add: length_filter_count_where [symmetric] mockIncidents_def)
  note derived =
    local_counts_when_absent
      [of "JObj [(''active_tourists'', JNum 4), (''efirs_today'', JNum 3)]"
          mockIncidents mockTourists]
  from derived a d
  have e: "activeIncidentsCard (JObj [(''active_tourists'', JNum 4), (''efirs_today'', JNum 3)])
             mockIncidents = Inr (JNum 1)"
    by simp
  from derived b c
  have f: "safeTouristsCard (JObj [(''active_tourists'', JNum 4), (''efirs_today'', JNum 3)])
             mockTourists = Inr (JNum 2)"
    by blast
  from a b c e f show ?thesis
    by blast
qed

section \<open>Startup with a persisted token\<close>

text \<open>
  C5. The component starts with a token in storage; the first effect sends it to
  \<^verbatim>\<open>/auth/me\<close>, and \<^verbatim>\<open>getCurrentUser\<close> rejects it. Then nobody is logged in and no officer
  is set (the Anonymous state), the token is gone from storage, and the only request
  ever issued is the one to \<^verbatim>\<open>/auth/me\<close>: no dashboard fetch.
\<close>

theorem startup_rejected_token:
  assumes "token \<noteq> []" and "rejectsToken r"
  shows "isLoggedIn (run [Mount, Me_reply token r] (initialApp (Some token))) = False \<and>
         currentUser (run [Mount, Me_reply token r] (initialApp (Some token))) = JNull \<and>
         auth_token (run [Mount, Me_reply token r] (initialApp (Some token))) = None \<and>
         sent (run [Mount, Me_reply token r] (initialApp (Some token))) = [GET_me token]"
  using assms
  by (auto simp: rejectsToken_def mount_def verifyToken_def verifyToken_settled_def
        initialApp_def split: sum.splits)

theorem startup_rejected_token_witness:
  "rejectsToken (Reply 401 (Some (JObj [(''detail'', JStr ''Could not validate credentials'')]))) \<and>
   rejectsToken Network_failure \<and>
   isLoggedIn (run [Mount, Me_reply ''stale''
       (Reply 401 (Some (JObj [(''detail'', JStr ''Could not validate credentials'')])))]
       (initialApp (Some ''stale''))) = False \<and>
   auth_token (run [Mount, Me_reply ''stale''
       (Reply 401 (Some (JObj [(''detail'', JStr ''Could not validate credentials'')])))]
       (initialApp (Some ''stale''))) = None \<and>
   sent (run [Mount, Me_reply ''stale''
       (Reply 401 (Some (JObj [(''detail'', JStr ''Could not validate credentials'')])))]
       (initialApp (Some ''stale''))) = [GET_me ''stale'']"
proof -
  have t: "''stale'' \<noteq> []"
    by simp
  have r: "rejectsToken
             (Reply 401 (Some (JObj [(''detail'', JStr ''Could not validate credentials'')])))"
    by (simp add: rejectsToken_def)
  have n: "rejectsToken Network_failure"
    by (simp add: rejectsToken_def)
  from startup_rejected_token [OF t r] r n show ?thesis
    by blast
qed

section \<open>Status and severity colours\<close>

text \<open>
  C6. \<^verbatim>\<open>getStatusColor\<close> maps \<^verbatim>\<open>'safe'\<close> to green, \<^verbatim>\<open>'alert'\<close> to amber and
  \<^verbatim>\<open>'emergency'\<close> to red, and every other value, string or not, to the default gray. It
  returns for every input: the \<^verbatim>\<open>switch\<close> only compares.
\<close>

theorem getStatusColor_total:
  "getStatusColor (JStr ''safe'') = ''#22c55e'' \<and>
   getStatusColor (JStr ''alert'') = ''#f59e0b'' \<and>
   getStatusColor (JStr ''emergency'') = ''#ef4444'' \<and>
   (status \<notin> {JStr ''safe'', JStr ''alert'', JStr ''emergency''} \<longrightarrow>
      getStatusColor status = ''#6b7280'')"
  by (simp add: getStatusColor_def)

theorem getStatusColor_total_witness:
  "JStr ''lost'' \<notin> {JStr ''safe'', JStr ''alert'', JStr ''emergency''} \<and>
   getStatusColor (JStr ''lost'') = ''#6b7280''"
  using getStatusColor_total [of "JStr ''lost''"] by simp

text \<open>
  C10. In the incident list and in the incident details dialog alike, severity
  \<^verbatim>\<open>'high'\<close> gives the red dot and \<^verbatim>\<open>'medium'\<close> the yellow one; every other severity,
  \<^verbatim>\<open>'low'\<close>, an unrecognised string or a missing field, gives the green dot, the same
  as \<^verbatim>\<open>'low'\<close>.
\<close>

theorem severityDot_fallthrough:
  "incidentListSeverityDot (JStr ''high'') = ''bg-red-500'' \<and>
   incidentModalSeverityDot (JStr ''high'') = ''bg-red-500'' \<and>
   incidentListSeverityDot (JStr ''medium'') = ''bg-yellow-500'' \<and>
   incidentModalSeverityDot (JStr ''medium'') = ''bg-yellow-500'' \<and>
   incidentListSeverityDot (JStr ''low'') = ''bg-green-500'' \<and>
   incidentModalSeverityDot (JStr ''low'') = ''bg-green-500'' \<and>
   (severity \<noteq> JStr ''high'' \<and> severity \<noteq> JStr ''medium'' \<longrightarrow>
      incidentListSeverityDot severity = incidentListSeverityDot (JStr ''low'') \<and>
      incidentModalSeverityDot severity = incidentModalSeverityDot (JStr ''low''))"
  by (simp add: incidentListSeverityDot_def incidentModalSeverityDot_def)

theorem severityDot_fallthrough_witness:
  "JUndefined \<noteq> JStr ''high'' \<and> JUndefined \<noteq> JStr ''medium'' \<and>
   incidentListSeverityDot JUndefined = ''bg-green-500'' \<and>
   incidentModalSeverityDot JUndefined = ''bg-green-500''"
  using severityDot_fallthrough [of JUndefined] by simp

section \<open>The tourist search\<close>

lemma startsWith_prefix: "startsWith s t = prefix t s"
  by (induction s t rule: startsWith.induct) auto

lemma includes_str_sublist: "includes_str s t = sublist t s"
  by (induction s) (auto simp: startsWith_prefix sublist_Cons_right)

lemma sublist_map_iff:
  "sublist (map f q) (map f name) =
     (\<exists>pre mid suf. name = pre @ mid @ suf \<and> map f mid = map f q)"
proof
  assume "sublist (map f q) (map f name)"
  then obtain ps ss where "map f name = ps @ map f q @ ss"
    by (auto simp: sublist_def)
  from this [unfolded map_eq_append_conv]
  obtain pre rest where n1: "name = pre @ rest" and r: "map f q @ ss = map f rest"
    by blast
  from r [symmetric, unfolded map_eq_append_conv]
  obtain mid suf where "rest = mid @ suf" and "map f mid = map f q"
    by auto
  with n1 show "\<exists>pre mid suf. name = pre @ mid @ suf \<and> map f mid = map f q"
    by blast
next
  assume "\<exists>pre mid suf. name = pre @ mid @ suf \<and> map f mid = map f q"
  then obtain pre mid suf where "name = pre @ mid @ suf" and "map f mid = map f q"
    by blast
  then have "map f name = map f pre @ map f q @ map f suf"
    by simp
  then show "sublist (map f q) (map f name)"
    unfolding sublist_def by blast
qed

text \<open>On Basic Latin, being the same letter up to case is having the same small letter.\<close>

lemma sameLetter_asciiLower:
  "a < 0x80 \<Longrightarrow> b < 0x80 \<Longrightarrow> sameLetter a b = (asciiLower a = asciiLower b)"
  unfolding sameLetter_def asciiLower_def
  by (auto; uint_arith)

lemma map_asciiLower_eq_iff:
  assumes "isAscii xs" and "isAscii ys"
  shows "(map asciiLower xs = map asciiLower ys) = list_all2 sameLetter xs ys"
  using assms
proof (induction xs arbitrary: ys)
  case Nil
  then show ?case by simp
next
  case (Cons x xs)
  then show ?case
    by (cases ys) (auto simp: isAscii_def sameLetter_asciiLower)
qed

lemma isAscii_append: "isAscii (xs @ ys) = (isAscii xs \<and> isAscii ys)"
  by (simp add: isAscii_def)

lemma includes_str_ascii:
  assumes lc: "lowerCasesAscii lc" and n: "isAscii name" and q: "isAscii query"
  shows "includes_str (lc name) (lc query) = containsIgnoringCase name query"
proof -
  from lc n q have "includes_str (lc name) (lc query) =
      sublist (map asciiLower query) (map asciiLower name)"
    by (simp add: lowerCasesAscii_def includes_str_sublist)
  also have "\<dots> = (\<exists>pre mid suf. name = pre @ mid @ suf \<and>
      map asciiLower mid = map asciiLower query)"
    by (rule sublist_map_iff)
  also have "\<dots> = (\<exists>pre mid suf. name = pre @ mid @ suf \<and> list_all2 sameLetter mid query)"
    using n q by (metis isAscii_append map_asciiLower_eq_iff)
  finally show ?thesis
    by (simp add: containsIgnoringCase_def)
qed

text \<open>The function of the examples lower-cases Basic Latin the way Unicode does.\<close>

lemma lowerFrom_ascii: "isAscii s \<Longrightarrow> lowerFrom before s = map asciiLower s"
proof (induction s arbitrary: before)
  case Nil
  then show ?case by simp
next
  case (Cons c s)
  from Cons.prems have c: "c < 0x80" and s: "isAscii s"
    by (simp_all add: isAscii_def)
  from c have low: "\<not> 0x391 \<le> c" "\<not> 0x3A3 \<le> c"
    by uint_arith+
  then have "c \<noteq> 0x3A3" and "lowerUnit c = asciiLower c"
    by (auto simp: lowerUnit_def asciiLower_def)
  with Cons.IH [OF s] show ?case by simp
qed

lemma lowerCasesAscii_LatinGreek: "lowerCasesAscii toLowerCase_LatinGreek"
  by (simp add: lowerCasesAscii_def toLowerCase_LatinGreek_def lowerFrom_ascii)

text \<open>
  The tourist of the Greek example and the query capital sigma, U+03A3. The name
  contains the query as it stands. Lower-cased, the name ends in the final sigma U+03C2
  and the query is the sigma U+03C3, so the tourist is not in the list.
\<close>

theorem final_sigma_name_left_out:
  "sublist [0x3A3] (tourist_name nikos) \<and>
   containsIgnoringCase (tourist_name nikos) [0x3A3] \<and>
   toLowerCase_LatinGreek (tourist_name nikos) = [0x3BD, 0x3B9, 0x3BA, 0x3BF, 0x3C2] \<and>
   toLowerCase_LatinGreek [0x3A3] = [0x3C3] \<and>
   filterTourists toLowerCase_LatinGreek [nikos] [0x3A3] = []"
proof -
  have n: "tourist_name nikos = [0x39D, 0x399, 0x39A, 0x39F] @ [0x3A3] @ []"
    by (simp add: nikos_def)
  have sub: "sublist [0x3A3] (tourist_name nikos)"
    unfolding sublist_def using n by blast
  have "list_all2 sameLetter [0x3A3] [0x3A3]"
    by (simp add: sameLetter_def)
  with n have ci: "containsIgnoringCase (tourist_name nikos) [0x3A3]"
    unfolding containsIgnoringCase_def by blast
  have low: "toLowerCase_LatinGreek (tourist_name nikos) = [0x3BD, 0x3B9, 0x3BA, 0x3BF, 0x3C2]"
    by (simp add: nikos_def toLowerCase_LatinGreek_def lowerUnit_def isFinalSigma_def
          isCaseIgnorable_def isCased_def)
  have q: "toLowerCase_LatinGreek [0x3A3] = [0x3C3]"
    by (simp add: toLowerCase_LatinGreek_def isFinalSigma_def)
  have "filterTourists toLowerCase_LatinGreek [nikos] [0x3A3] = []"
    by (simp add: filterTourists_def low q)
  with sub ci low q show ?thesis
    by blast
qed

text \<open>
  C7, as the code has it. For every lower-casing function, collection and query, the
  list shown is the tourists whose lower-cased name contains the lower-cased query, each
  kept once and in the order of the collection, and the whole collection when the
  lower-cased query is empty. With the lower-casing that Unicode gives Basic Latin, and
  names and a query of Basic Latin, these are the tourists whose name contains the query
  as a case-insensitive substring; the empty query keeps the whole collection, and the
  query \<^verbatim>\<open>john\<close> keeps a tourist named \<^verbatim>\<open>John Doe\<close>.
\<close>

theorem filterTourists_lowercased_containment:
  "filterTourists lc ts query =
     filter (\<lambda>tourist. sublist (lc query) (lc (tourist_name tourist))) ts \<and>
   subseq (filterTourists lc ts query) ts \<and>
   (lc query = [] \<longrightarrow> filterTourists lc ts query = ts) \<and>
   (lowerCasesAscii lc \<and> isAscii query \<and> (\<forall>tourist\<in>set ts. isAscii (tourist_name tourist)) \<longrightarrow>
      filterTourists lc ts query =
        filter (\<lambda>tourist. containsIgnoringCase (tourist_name tourist) query) ts) \<and>
   (lowerCasesAscii lc \<longrightarrow>
      filterTourists lc ts [] = ts \<and>
      filterTourists lc [t\<lparr>tourist_name := utf16 ''John Doe''\<rparr>] (utf16 ''john'') =
        [t\<lparr>tourist_name := utf16 ''John Doe''\<rparr>])"
proof -
  have eq: "filterTourists lc ts query =
      filter (\<lambda>tourist. sublist (lc query) (lc (tourist_name tourist))) ts"
    by (simp add: filterTourists_def includes_str_sublist)
  have sub: "subseq (filterTourists lc ts query) ts"
    by (simp add: filterTourists_def)
  have emp: "filterTourists lc ts query = ts" if "lc query = []"
    using that by (simp add: filterTourists_def includes_str_sublist)
  have ci: "filterTourists lc ts query =
      filter (\<lambda>tourist. containsIgnoringCase (tourist_name tourist) query) ts"
    if "lowerCasesAscii lc" "isAscii query" "\<forall>tourist\<in>set ts. isAscii (tourist_name tourist)"
    unfolding filterTourists_def
    using that by (intro filter_cong refl) (simp add: includes_str_ascii)
  have all: "filterTourists lc ts [] = ts" if "lowerCasesAscii lc"
  proof -
    from that have "lc [] = []"
      by (simp add: lowerCasesAscii_def isAscii_def)
    then show ?thesis
      by (simp add: filterTourists_def includes_str_sublist)
  qed
  have john: "filterTourists lc [t\<lparr>tourist_name := utf16 ''John Doe''\<rparr>] (utf16 ''john'') =
      [t\<lparr>tourist_name := utf16 ''John Doe''\<rparr>]" if "lowerCasesAscii lc"
  proof -
    have "isAscii (utf16 ''John Doe'')" and "isAscii (utf16 ''john'')"
      by (simp_all add: isAscii_def utf16_def)
    with that have "lc (utf16 ''John Doe'') = map asciiLower (utf16 ''John Doe'')"
      and "lc (utf16 ''john'') = map asciiLower (utf16 ''john'')"
      by (simp_all add: lowerCasesAscii_def)
    then show ?thesis
      by (simp add: filterTourists_def utf16_def asciiLower_def)
  qed
  from eq sub emp ci all john show ?thesis
    by blast
qed

text \<open>
  On the seed collection, with the function of the examples: the query \<^verbatim>\<open>O\<close> keeps
  John Doe, Mike Johnson and Emma Wilson, who have a small \<^verbatim>\<open>o\<close> in their names, and
  they are the tourists whose name contains \<^verbatim>\<open>O\<close> up to case.
\<close>

theorem filterTourists_lowercased_containment_witness:
  "lowerCasesAscii toLowerCase_LatinGreek \<and>
   isAscii (utf16 ''O'') \<and>
   list_all (\<lambda>tourist. isAscii (tourist_name tourist)) mockTourists \<and>
   filterTourists toLowerCase_LatinGreek mockTourists (utf16 ''O'') =
     [mockTourists ! 0, mockTourists ! 2, mockTourists ! 3] \<and>
   filter (\<lambda>tourist. containsIgnoringCase (tourist_name tourist) (utf16 ''O'')) mockTourists =
     [mockTourists ! 0, mockTourists ! 2, mockTourists ! 3] \<and>
   filterTourists toLowerCase_LatinGreek [(mockTourists ! 1)\<lparr>tourist_name := utf16 ''John Doe''\<rparr>]
       (utf16 ''john'') =
     [(mockTourists ! 1)\<lparr>tourist_name := utf16 ''John Doe''\<rparr>]"
proof -
  note lc = lowerCasesAscii_LatinGreek
  have q: "isAscii (utf16 ''O'')"
    by (simp add: isAscii_def utf16_def)
  have names: "list_all (\<lambda>tourist. isAscii (tourist_name tourist)) mockTourists"
    by (simp add: mockTourists_def isAscii_def utf16_def)
  then have names': "\<forall>tourist\<in>set mockTourists. isAscii (tourist_name tourist)"
    by (simp add: list_all_iff)
  have low: "toLowerCase_LatinGreek (tourist_name tourist) = map asciiLower (tourist_name tourist)"
    if "tourist \<in> set mockTourists" for tourist
    using lc names' that by (simp add: lowerCasesAscii_def)
  have shown: "filterTourists toLowerCase_LatinGreek mockTourists (utf16 ''O'') =
      [mockTourists ! 0, mockTourists ! 2, mockTourists ! 3]"
  proof -
    have "toLowerCase_LatinGreek (utf16 ''O'') = map asciiLower (utf16 ''O'')"
      using lc q by (simp add: lowerCasesAscii_def)
    moreover have "filter (\<lambda>tourist. includes_str (map asciiLower (tourist_name tourist))
        (map asciiLower (utf16 ''O''))) mockTourists =
        [mockTourists ! 0, mockTourists ! 2, mockTourists ! 3]"
      by (simp add: mockTourists_def utf16_def asciiLower_def)
    moreover have "filterTourists toLowerCase_LatinGreek mockTourists (utf16 ''O'') =
        filter (\<lambda>tourist. includes_str (map asciiLower (tourist_name tourist))
        (toLowerCase_LatinGreek (utf16 ''O''))) mockTourists"
      unfolding filterTourists_def by (intro filter_cong refl) (simp add: low)
    ultimately show ?thesis by simp
  qed
  note th = filterTourists_lowercased_containment
    [of toLowerCase_LatinGreek mockTourists "utf16 ''O''" "mockTourists ! 1"]
  from th lc q names' shown
  have spec: "filter (\<lambda>tourist. containsIgnoringCase (tourist_name tourist) (utf16 ''O''))
      mockTourists = [mockTourists ! 0, mockTourists ! 2, mockTourists ! 3]"
    by metis
  from th lc
  have john: "filterTourists toLowerCase_LatinGreek
      [(mockTourists ! 1)\<lparr>tourist_name := utf16 ''John Doe''\<rparr>] (utf16 ''john'') =
      [(mockTourists ! 1)\<lparr>tourist_name := utf16 ''John Doe''\<rparr>]"
    by blast
  from lc q names shown spec john show ?thesis
    by blast
qed

section \<open>Registration\<close>

text \<open>
  C8. When the password and its confirmation differ, submitting the registration form
  issues no request: the error is \<^verbatim>\<open>Passwords do not match\<close> and the form is idle
  again.
\<close>

theorem register_password_mismatch_local:
  assumes "password (registerData s) \<noteq> confirmPassword (registerData s)"
  shows "sent (step Register_submit s) = sent s \<and>
         authError (step Register_submit s) = JStr ''Passwords do not match'' \<and>
         authLoading (step Register_submit s) = False"
  using assms by (simp add: handleRegister_def Let_def)

theorem register_password_mismatch_local_witness:
  "password (emptyRegisterData\<lparr>password := utf16 ''abc123'',
                               confirmPassword := utf16 ''abc124''\<rparr>) \<noteq>
   confirmPassword (emptyRegisterData\<lparr>password := utf16 ''abc123'',
                                      confirmPassword := utf16 ''abc124''\<rparr>) \<and>
   sent (step Register_submit ((initialApp None)\<lparr>registerData :=
           emptyRegisterData\<lparr>password := utf16 ''abc123'',
                              confirmPassword := utf16 ''abc124''\<rparr>\<rparr>)) = [] \<and>
   authError (step Register_submit ((initialApp None)\<lparr>registerData :=
           emptyRegisterData\<lparr>password := utf16 ''abc123'',
                              confirmPassword := utf16 ''abc124''\<rparr>\<rparr>)) =
     JStr ''Passwords do not match''"
  using register_password_mismatch_local [of "(initialApp None)\<lparr>registerData :=
           emptyRegisterData\<lparr>password := utf16 ''abc123'',
                              confirmPassword := utf16 ''abc124''\<rparr>\<rparr>"]
  by (simp add: initialApp_def utf16_def)

lemma dropWhile_all_iff: "(\<forall>x\<in>set (dropWhile P s). P x) = (\<forall>x\<in>set s. P x)"
proof
  assume all: "\<forall>x\<in>set (dropWhile P s). P x"
  have "dropWhile P s = []"
  proof (rule ccontr)
    assume ne: "dropWhile P s \<noteq> []"
    then have "\<not> P (hd (dropWhile P s))" by (rule hd_dropWhile)
    moreover from ne have "hd (dropWhile P s) \<in> set (dropWhile P s)" by simp
    ultimately show False using all by blast
  qed
  then show "\<forall>x\<in>set s. P x" by simp
next
  assume "\<forall>x\<in>set s. P x"
  then show "\<forall>x\<in>set (dropWhile P s). P x"
    by (blast dest: set_dropWhileD)
qed

text \<open>Trimming leaves nothing of a string exactly when the string is blank.\<close>

lemma trim_empty_iff: "(trim s = []) = blankText s"
  by (simp add: trim_def blankText_def dropWhile_all_iff list_all_iff)

lemma missingFields_blank:
  "missingFields rd = filter (\<lambda>f. blankText (registerData_at rd f)) requiredFields"
  by (simp add: missingFields_def trim_empty_iff)

lemma mem_join_sublist: "x \<in> set xs \<Longrightarrow> sublist x (join sep xs)"
proof (induction sep xs rule: join.induct)
  case (3 sep a b xs)
  show ?case
  proof (cases "x = a")
    case True
    then show ?thesis by simp
  next
    case False
    with 3 have "sublist x (join sep (b # xs))" by simp
    then obtain ps ss where "join sep (b # xs) = ps @ x @ ss"
      by (auto simp: sublist_def)
    then have "join sep (a # b # xs) = (a @ sep @ ps) @ x @ ss" by simp
    then show ?thesis unfolding sublist_def by blast
  qed
qed simp_all

text \<open>
  C9. When the passwords match and some required field is blank (nothing is left of it
  after trimming: it is empty or made of white space only), submitting the form issues
  no request, and the error is \<^verbatim>\<open>Please fill in all required fields:\<close> followed by the
  names of the blank required fields, in the order of \<^verbatim>\<open>requiredFields\<close>, separated by
  a comma and a space; so the name of every blank required field occurs in it.
\<close>

theorem register_missing_fields_local:
  assumes pw: "password (registerData s) = confirmPassword (registerData s)"
      and blank: "\<exists>f\<in>set requiredFields. blankText (registerData_at (registerData s) f)"
  shows "sent (step Register_submit s) = sent s \<and>
         authLoading (step Register_submit s) = False \<and>
         authError (step Register_submit s) =
           JStr (''Please fill in all required fields: '' @
                 join '', '' (filter (\<lambda>f. blankText (registerData_at (registerData s) f))
                                requiredFields)) \<and>
         (\<forall>f\<in>set requiredFields. blankText (registerData_at (registerData s) f) \<longrightarrow>
            (\<exists>msg. authError (step Register_submit s) = JStr msg \<and> sublist f msg))"
proof -
  let ?missing = "filter (\<lambda>f. blankText (registerData_at (registerData s) f)) requiredFields"
  let ?msg = "''Please fill in all required fields: '' @ join '', '' ?missing"
  from blank have ne: "?missing \<noteq> []"
    by (simp add: filter_empty_conv)
  with pw have st: "step Register_submit s =
      s\<lparr>authLoading := True, authError := JStr [], authError := JStr ?msg,
        authLoading := False\<rparr>"
    by (simp add: handleRegister_def Let_def missingFields_blank)
  have "sublist f ?msg"
    if "f \<in> set requiredFields" "blankText (registerData_at (registerData s) f)" for f
  proof -
    from that have "f \<in> set ?missing" by simp
    then have "sublist f (join '', '' ?missing)" by (rule mem_join_sublist)
    then obtain ps ss where "join '', '' ?missing = ps @ f @ ss"
      by (auto simp: sublist_def)
    then have "?msg = (''Please fill in all required fields: '' @ ps) @ f @ ss"
      by simp
    then show ?thesis unfolding sublist_def by blast
  qed
  with st show ?thesis by simp
qed

text \<open>
  Two submissions with the password \<^verbatim>\<open>abc123\<close> given twice. In \<open>blankForm\<close> every other
  required field is white space only, of seven kinds: a no-break space, nothing at
  all, three spaces, a tab, an ideographic space, a line separator and U+FEFF; all seven
  names are listed. In \<open>paddedForm\<close> the fields are filled in, some with spaces around
  the text, except the e-mail address, which is a no-break space and a space: only
  \<^verbatim>\<open>email\<close> is listed.
\<close>

theorem register_missing_fields_local_witness:
  "password blankForm = confirmPassword blankForm \<and>
   sent (step Register_submit ((initialApp None)\<lparr>registerData := blankForm\<rparr>)) = [] \<and>
   authError (step Register_submit ((initialApp None)\<lparr>registerData := blankForm\<rparr>)) =
     JStr ''Please fill in all required fields: username, email, full_name, phone, department, rank, station_id'' \<and>
   password paddedForm = confirmPassword paddedForm \<and>
   sent (step Register_submit ((initialApp None)\<lparr>registerData := paddedForm\<rparr>)) = [] \<and>
   authError (step Register_submit ((initialApp None)\<lparr>registerData := paddedForm\<rparr>)) =
     JStr ''Please fill in all required fields: email''"
proof -
  let ?b = "(initialApp None)\<lparr>registerData := blankForm\<rparr>"
  let ?p = "(initialApp None)\<lparr>registerData := paddedForm\<rparr>"
  have pwb: "password (registerData ?b) = confirmPassword (registerData ?b)"
    by (simp add: blankForm_def)
  have fb: "filter (\<lambda>f. blankText (registerData_at (registerData ?b) f)) requiredFields =
     [''username'', ''email'', ''full_name'', ''phone'', ''department'', ''rank'', ''station_id'']"
    by (simp add: requiredFields_def registerData_at_def blankForm_def emptyRegisterData_def
          blankText_def isWhiteSpace_def utf16_def)
  have blankb: "\<exists>f\<in>set requiredFields. blankText (registerData_at (registerData ?b) f)"
    by (rule bexI [of _ "''email''"])
      (simp_all add: requiredFields_def registerData_at_def blankForm_def
         emptyRegisterData_def blankText_def)
  have pwp: "password (registerData ?p) = confirmPassword (registerData ?p)"
    by (simp add: paddedForm_def)
  have fp: "filter (\<lambda>f. blankText (registerData_at (registerData ?p) f)) requiredFields =
     [''email'']"
    by (simp add: requiredFields_def registerData_at_def paddedForm_def emptyRegisterData_def
          blankText_def isWhiteSpace_def utf16_def)
  have blankp: "\<exists>f\<in>set requiredFields. blankText (registerData_at (registerData ?p) f)"
    by (rule bexI [of _ "''email''"])
      (simp_all add: requiredFields_def registerData_at_def paddedForm_def
         emptyRegisterData_def blankText_def isWhiteSpace_def)
  note b = register_missing_fields_local [OF pwb blankb, unfolded fb]
  note p = register_missing_fields_local [OF pwp blankp, unfolded fp]
  have "sent ?b = []" and "sent ?p = []"
    by (simp_all add: initialApp_def)
  with b p pwb pwp show ?thesis
    by simp
qed

end
